theory Spec2Isabelle
  imports Main "HOL-Library.AList" "HOL-Library.Sublist"
begin

section \<open>Python values and errors\<close>

text \<open>
  The exceptions that \<^verbatim>\<open>training.py\<close> can raise: \<^verbatim>\<open>ValueError\<close> (the explicit
  \<^verbatim>\<open>raise\<close> of the parameter-server builder, and \<^verbatim>\<open>list.index\<close> on an absent
  element), \<^verbatim>\<open>IndexError\<close> (\<^verbatim>\<open>hosts[0]\<close> on an empty list), \<^verbatim>\<open>UnboundLocalError\<close>
  (reading a local variable that no executed statement has bound) and whatever an
  external collaborator (the entry-point runner, the TensorFlow server) raises.
\<close>

datatype error = ValueError | IndexError | UnboundLocalError | ExternalError string

text \<open>
  The values of the \<^verbatim>\<open>additional_framework_parameters\<close> dictionary are decoded JSON
  scalars. Only their truth value is used by the code (\<^verbatim>\<open>if\<close>, \<^verbatim>\<open>and\<close>).
\<close>

datatype py_value = PyNone | PyBool bool | PyInt int | PyStr string

fun truthy :: "py_value \<Rightarrow> bool" where
  "truthy PyNone = False"
| "truthy (PyBool b) = b"
| "truthy (PyInt i) = (i \<noteq> 0)"
| "truthy (PyStr s) = (s \<noteq> [])"

text \<open>\<^verbatim>\<open>d.get(key, default)\<close> on a dictionary kept as an association list.\<close>

definition dict_get :: "('k \<times> 'v) list \<Rightarrow> 'k \<Rightarrow> 'v \<Rightarrow> 'v" where
  "dict_get d k dflt = (case map_of d k of None \<Rightarrow> dflt | Some v \<Rightarrow> v)"

text \<open>\<^verbatim>\<open>xs.index(x)\<close>: the first position of \<open>x\<close>, \<^verbatim>\<open>ValueError\<close> when absent.\<close>

fun list_index :: "'a list \<Rightarrow> 'a \<Rightarrow> error + nat" where
  "list_index [] x = Inl ValueError"
| "list_index (y # ys) x =
     (if y = x then Inr 0
      else (case list_index ys x of Inl e \<Rightarrow> Inl e | Inr i \<Rightarrow> Inr (Suc i)))"

text \<open>
  \<^verbatim>\<open>"{}".format(v)\<close> for the two kinds of port the code passes: the integer default
  \<^verbatim>\<open>2222\<close> / \<^verbatim>\<open>8890\<close>, printed in decimal, and the string \<^verbatim>\<open>"2223"\<close>.
\<close>

datatype port = PortInt nat | PortStr string

definition digit_char :: "nat \<Rightarrow> char" where
  "digit_char d = ''0123456789'' ! d"

fun str_nat :: "nat \<Rightarrow> string" where
  "str_nat n = (if n < 10 then [digit_char n] else str_nat (n div 10) @ [digit_char (n mod 10)])"

declare str_nat.simps [simp del]

fun format_port :: "port \<Rightarrow> string" where
  "format_port (PortInt n) = str_nat n"
| "format_port (PortStr s) = s"

section \<open>Topology builder\<close>

text \<open>
  \<^verbatim>\<open>tf_config\<close> is the dictionary
  \<^verbatim>\<open>{"cluster": {...}, "environment": "cloud", "task": {"index": ..., "type": ...}}\<close>.
  The cluster dictionary is kept as an association list in insertion order, so that an
  absent role is an absent key.
\<close>

record task =
  task_index :: nat
  task_type :: string

type_synonym cluster = "(string \<times> string list) list"

record tf_config =
  cluster :: cluster
  environment :: string
  task :: task

text \<open>\<^verbatim>\<open>xs[0]\<close>, which raises \<^verbatim>\<open>IndexError\<close> on an empty list.\<close>

fun list_first :: "'a list \<Rightarrow> error + 'a" where
  "list_first [] = Inl IndexError"
| "list_first (x # xs) = Inr x"

text \<open>\<^verbatim>\<open>_is_host_master\<close>: \<^verbatim>\<open>current_host == hosts[0]\<close>.\<close>

definition is_host_master :: "string list \<Rightarrow> string \<Rightarrow> error + bool" where
  "is_host_master hosts current_host =
     (case list_first hosts of Inl e \<Rightarrow> Inl e | Inr h \<Rightarrow> Inr (current_host = h))"

text \<open>The inner \<^verbatim>\<open>host_addresses\<close>: \<^verbatim>\<open>["{}:{}".format(host, port) for host in hosts]\<close>.\<close>

definition host_addresses :: "string list \<Rightarrow> port \<Rightarrow> string list" where
  "host_addresses hs p = map (\<lambda>host. host @ '':'' @ format_port p) hs"

text \<open>
  \<^verbatim>\<open>_build_tf_config_for_ps(hosts, current_host, ps_task)\<close>. The local \<open>ps\<close> is
  \<^verbatim>\<open>hosts if len(hosts) > 1 else None\<close>; \<^verbatim>\<open>if ps:\<close> and \<^verbatim>\<open>if workers:\<close> test for a
  non-empty list.
\<close>

definition build_tf_config_for_ps :: "string list \<Rightarrow> string \<Rightarrow> bool \<Rightarrow> error + tf_config" where
  "build_tf_config_for_ps hosts current_host ps_task =
    (let masters = take 1 hosts;
         workers = drop 1 hosts;
         ps = (if length hosts > 1 then Some hosts else None);
         c0 = [(''master'', host_addresses masters (PortInt 2222))];
         c1 = (case ps of
                 Some p \<Rightarrow> (if p \<noteq> [] then AList.update ''ps'' (host_addresses p (PortStr ''2223'')) c0 else c0)
               | None \<Rightarrow> c0);
         c2 = (if workers \<noteq> [] then AList.update ''worker'' (host_addresses workers (PortInt 2222)) c1 else c1);
         finish = (\<lambda>ty ix. Inr \<lparr>cluster = c2, environment = ''cloud'',
                                 task = \<lparr>task_index = ix, task_type = ty\<rparr>\<rparr>)
     in if ps_task then
          (case ps of
             None \<Rightarrow> Inl ValueError
           | Some p \<Rightarrow> (case list_index p current_host of
                          Inl e \<Rightarrow> Inl e
                        | Inr i \<Rightarrow> finish ''ps'' i))
        else
          (case is_host_master hosts current_host of
             Inl e \<Rightarrow> Inl e
           | Inr True \<Rightarrow> finish ''master'' 0
           | Inr False \<Rightarrow> (case list_index workers current_host of
                             Inl e \<Rightarrow> Inl e
                           | Inr i \<Rightarrow> finish ''worker'' i)))"

text \<open>\<^verbatim>\<open>_build_tf_config_for_mwms(hosts, current_host)\<close>.\<close>

definition build_tf_config_for_mwms :: "string list \<Rightarrow> string \<Rightarrow> error + tf_config" where
  "build_tf_config_for_mwms hosts current_host =
    (let workers = hosts;
         c = AList.update ''worker'' (host_addresses workers (PortInt 8890)) []
     in case list_index workers current_host of
          Inl e \<Rightarrow> Inl e
        | Inr i \<Rightarrow> Inr \<lparr>cluster = c, environment = ''cloud'',
                        task = \<lparr>task_index = i, task_type = ''worker''\<rparr>\<rparr>)"

section \<open>Process launching and the orchestrator\<close>

text \<open>
  The \<^verbatim>\<open>Environment\<close> object of \<^verbatim>\<open>sagemaker_training\<close> is an external collaborator; the
  code only reads the attributes below. \<open>to_env_vars\<close> is the result of the method
  \<^verbatim>\<open>env.to_env_vars()\<close>. A value of the environment-variable dictionary is a string;
  \<open>JsonDumps cfg\<close> stands for the string \<^verbatim>\<open>json.dumps(cfg)\<close>.
\<close>

datatype env_value = EnvStr string | JsonDumps tf_config

type_synonym env_vars = "(string \<times> env_value) list"

record env =
  hosts :: "string list"
  current_host :: string
  distribution_hosts :: "string list"
  current_instance_group :: string
  distribution_instance_groups :: "string list"
  additional_framework_parameters :: "(string \<times> py_value) list"
  to_env_vars :: env_vars
  module_dir :: string
  user_entry_point :: string

definition SAGEMAKER_PARAMETER_SERVER_ENABLED :: string where
  "SAGEMAKER_PARAMETER_SERVER_ENABLED = ''sagemaker_parameter_server_enabled''"

definition SAGEMAKER_DISTRIBUTED_DATAPARALLEL_ENABLED :: string where
  "SAGEMAKER_DISTRIBUTED_DATAPARALLEL_ENABLED = ''sagemaker_distributed_dataparallel_enabled''"

definition SAGEMAKER_MULTI_WORKER_MIRRORED_STRATEGY_ENABLED :: string where
  "SAGEMAKER_MULTI_WORKER_MIRRORED_STRATEGY_ENABLED =
     ''sagemaker_multi_worker_mirrored_strategy_enabled''"

datatype runner_type = ProcessRunnerType | MPIRunnerType | SMDataParallelRunnerType

text \<open>
  What the code does to the outside, in the order it does it (the \<^verbatim>\<open>logger.info\<close> lines
  of \<^verbatim>\<open>train\<close> and of the wait loop are left out):
  \<^item> \<open>PsServerStart cluster task_index\<close>: \<^verbatim>\<open>_run_ps\<close> created the \<^verbatim>\<open>tf.distribute.Server\<close>
    for job \<^verbatim>\<open>"ps"\<close> (GPU count 0) and started the background process that joins it;
  \<^item> \<open>EntryPointRun uri user_entry_point args env_vars capture_error runner_type\<close>: a
    (blocking) call of \<^verbatim>\<open>entry_point.run\<close>; \<open>runner_type\<close> is \<open>None\<close> when the keyword is
    not passed;
  \<^item> \<open>WaitUntilMasterIsDown master\<close>: \<^verbatim>\<open>_wait_until_master_is_down(master)\<close> was entered.
\<close>

datatype event =
    PsServerStart cluster nat
  | EntryPointRun string string "string list" env_vars bool "runner_type option"
  | WaitUntilMasterIsDown string

text \<open>
  The behaviour of the collaborators during one run: whether building the
  \<^verbatim>\<open>ClusterSpec\<close>, creating and starting the server, and the entry point raise, and
  whether the \<open>k\<close>-th \<^verbatim>\<open>curl\<close> of the master (counted from 0) exits with status 0.
\<close>

record world =
  cluster_spec_raises :: "error option"
  ps_server_raises :: "error option"
  entry_point_raises :: "error option"
  curl :: "nat \<Rightarrow> bool"

text \<open>
  \<^verbatim>\<open>_run_ps(env, cluster)\<close>; \<open>ix\<close> is its local \<^verbatim>\<open>task_index\<close>,
  \<^verbatim>\<open>env.hosts.index(env.current_host)\<close>.
\<close>

definition run_ps :: "world \<Rightarrow> env \<Rightarrow> cluster \<Rightarrow> event list \<times> (error + unit)" where
  "run_ps w e cl =
     (case cluster_spec_raises w of
        Some err \<Rightarrow> ([], Inl err)
      | None \<Rightarrow>
         (case list_index (hosts e) (current_host e) of
            Inl err \<Rightarrow> ([], Inl err)
          | Inr ix \<Rightarrow>
             (case ps_server_raises w of
                Some err \<Rightarrow> ([], Inl err)
              | None \<Rightarrow> ([PsServerStart cl ix], Inr ()))))"

text \<open>\<^verbatim>\<open>_run_worker(env, cmd_args, tf_config)\<close>.\<close>

definition run_worker :: "world \<Rightarrow> env \<Rightarrow> string list \<Rightarrow> tf_config \<Rightarrow> event list \<times> (error + unit)" where
  "run_worker w e cmd_args cfg =
     (let env_vars = AList.update ''TF_CONFIG'' (JsonDumps cfg) (to_env_vars e)
      in ([EntryPointRun (module_dir e) (user_entry_point e) cmd_args env_vars True None],
          (case entry_point_raises w of Some err \<Rightarrow> Inl err | None \<Rightarrow> Inr ())))"

text \<open>
  \<^verbatim>\<open>_wait_until_master_is_down(master)\<close>: \<^verbatim>\<open>while True\<close> around a \<^verbatim>\<open>curl\<close> of
  \<^verbatim>\<open>master:2222\<close>; exit status 0 is followed by \<^verbatim>\<open>time.sleep(10)\<close> and the next round,
  \<^verbatim>\<open>CalledProcessError\<close> by \<^verbatim>\<open>return\<close>. The loop counter \<open>k\<close> and the list of steps
  done so far are the model's bookkeeping; \<open>None\<close> is a loop that runs forever.
\<close>

datatype probe_step = Curl string | Sleep nat

partial_function (option) wait_loop ::
  "(nat \<Rightarrow> bool) \<Rightarrow> string \<Rightarrow> nat \<Rightarrow> probe_step list \<Rightarrow> probe_step list option" where
  "wait_loop probe master k done =
     (if probe k then wait_loop probe master (Suc k) (done @ [Curl (master @ '':2222''), Sleep 10])
      else Some (done @ [Curl (master @ '':2222'')]))"

definition wait_until_master_is_down :: "world \<Rightarrow> string \<Rightarrow> probe_step list option" where
  "wait_until_master_is_down w master = wait_loop (curl w) master 0 []"

text \<open>
  The three strategy flags read at the top of \<^verbatim>\<open>train\<close>. Each is used as a condition
  only, so \<^verbatim>\<open>x and len(env.hosts) > 1\<close> is the conjunction of the two truth values.
\<close>

definition parameter_server_enabled :: "env \<Rightarrow> bool" where
  "parameter_server_enabled e \<longleftrightarrow>
     truthy (dict_get (additional_framework_parameters e) SAGEMAKER_PARAMETER_SERVER_ENABLED (PyBool False))
     \<and> length (hosts e) > 1"

definition multi_worker_mirrored_strategy_enabled :: "env \<Rightarrow> bool" where
  "multi_worker_mirrored_strategy_enabled e \<longleftrightarrow>
     truthy (dict_get (additional_framework_parameters e)
               SAGEMAKER_MULTI_WORKER_MIRRORED_STRATEGY_ENABLED (PyBool False))"

definition sagemaker_distributed_dataparallel_enabled :: "env \<Rightarrow> bool" where
  "sagemaker_distributed_dataparallel_enabled e \<longleftrightarrow>
     truthy (dict_get (additional_framework_parameters e)
               SAGEMAKER_DISTRIBUTED_DATAPARALLEL_ENABLED (PyBool False))"

text \<open>
  The \<^verbatim>\<open># Setup\<close> part of \<^verbatim>\<open>train\<close>. It leaves two locals behind: \<open>tf_config\<close>, bound
  only by the parameter-server branch (\<open>None\<close> is the unbound variable), and \<open>env_vars\<close>.
\<close>

definition train_setup :: "env \<Rightarrow> error + (tf_config option \<times> env_vars)" where
  "train_setup e =
     (let env_vars = to_env_vars e
      in if current_instance_group e \<in> set (distribution_instance_groups e) then
           (if parameter_server_enabled e then
              (case build_tf_config_for_ps (distribution_hosts e) (current_host e) False of
                 Inl err \<Rightarrow> Inl err
               | Inr cfg \<Rightarrow> Inr (Some cfg, env_vars))
            else if multi_worker_mirrored_strategy_enabled e then
              (case build_tf_config_for_mwms (distribution_hosts e) (current_host e) of
                 Inl err \<Rightarrow> Inl err
               | Inr cfg \<Rightarrow> Inr (None, AList.update ''TF_CONFIG'' (JsonDumps cfg) env_vars))
            else Inr (None, env_vars))
         else Inr (None, env_vars))"

text \<open>The runner chosen in the \<^verbatim>\<open>else\<close> branch of the \<^verbatim>\<open># Run\<close> part.\<close>

definition select_runner_type :: "env \<Rightarrow> runner_type" where
  "select_runner_type e =
     (if current_instance_group e \<in> set (distribution_instance_groups e) then
        (if truthy (dict_get (additional_framework_parameters e) ''sagemaker_mpi_enabled'' PyNone)
         then MPIRunnerType
         else if sagemaker_distributed_dataparallel_enabled e then SMDataParallelRunnerType
         else ProcessRunnerType)
      else ProcessRunnerType)"

text \<open>
  The \<^verbatim>\<open># Run\<close> part, given the locals left by the setup. The result is the list of
  events in program order and how the call ends: \<open>Some (Inr ())\<close> returns,
  \<open>Some (Inl err)\<close> raises, \<open>None\<close> never returns.
\<close>

definition train_run ::
  "world \<Rightarrow> env \<Rightarrow> string list \<Rightarrow> tf_config option \<Rightarrow> env_vars \<Rightarrow> event list \<times> (error + unit) option" where
  "train_run w e cmd_args tf_config env_vars =
     (if parameter_server_enabled e then
        (case tf_config of
           None \<Rightarrow> ([], Some (Inl UnboundLocalError))
         | Some cfg \<Rightarrow>
            (case run_ps w e (cluster cfg) of
               (ev1, Inl err) \<Rightarrow> (ev1, Some (Inl err))
             | (ev1, Inr _) \<Rightarrow>
                (case run_worker w e cmd_args cfg of
                   (ev2, Inl err) \<Rightarrow> (ev1 @ ev2, Some (Inl err))
                 | (ev2, Inr _) \<Rightarrow>
                    (case is_host_master (hosts e) (current_host e) of
                       Inl err \<Rightarrow> (ev1 @ ev2, Some (Inl err))
                     | Inr True \<Rightarrow> (ev1 @ ev2, Some (Inr ()))
                     | Inr False \<Rightarrow>
                        (case list_first (hosts e) of
                           Inl err \<Rightarrow> (ev1 @ ev2, Some (Inl err))
                         | Inr master \<Rightarrow>
                            (ev1 @ ev2 @ [WaitUntilMasterIsDown master],
                             map_option (\<lambda>_. Inr ()) (wait_until_master_is_down w master)))))))
      else
        ([EntryPointRun (module_dir e) (user_entry_point e) cmd_args env_vars True
            (Some (select_runner_type e))],
         Some (case entry_point_raises w of Some err \<Rightarrow> Inl err | None \<Rightarrow> Inr ())))"

text \<open>\<^verbatim>\<open>train(env, cmd_args)\<close>.\<close>

definition train :: "world \<Rightarrow> env \<Rightarrow> string list \<Rightarrow> event list \<times> (error + unit) option" where
  "train w e cmd_args =
     (case train_setup e of
        Inl err \<Rightarrow> ([], Some (Inl err))
      | Inr (tf_config, env_vars) \<Rightarrow> train_run w e cmd_args tf_config env_vars)"

section \<open>Model-directory check\<close>



















section \<open>Example inputs\<close>

text \<open>
  A two-host cluster \<open>algo-1\<close>, \<open>algo-2\<close> whose only distribution instance group is
  \<open>train\<close>, seen from the host \<open>cur\<close> of instance group \<open>grp\<close>, and collaborators that
  never raise.
\<close>

definition example_env :: "string \<Rightarrow> string \<Rightarrow> (string \<times> py_value) list \<Rightarrow> env" where
  "example_env cur grp params =
     \<lparr>hosts = [''algo-1'', ''algo-2''], current_host = cur,
      distribution_hosts = [''algo-1'', ''algo-2''],
      current_instance_group = grp, distribution_instance_groups = [''train''],
      additional_framework_parameters = params,
      to_env_vars = [(''SM_CURRENT_HOST'', EnvStr cur)],
      module_dir = ''s3://bucket/sourcedir.tar.gz'', user_entry_point = ''train.py''\<rparr>"

definition example_world :: "(nat \<Rightarrow> bool) \<Rightarrow> world" where
  "example_world probe =
     \<lparr>cluster_spec_raises = None, ps_server_raises = None, entry_point_raises = None,
      curl = probe\<rparr>"

text \<open>
  The parameter-server topology of that cluster with the task \<open>ty\<close>, \<open>ix\<close>.
\<close>

definition example_ps_config :: "string \<Rightarrow> nat \<Rightarrow> tf_config" where
  "example_ps_config ty ix =
     \<lparr>cluster = [(''master'', [''algo-1:2222'']),
                 (''ps'', [''algo-1:2223'', ''algo-2:2223'']),
                 (''worker'', [''algo-2:2222''])],
      environment = ''cloud'', task = \<lparr>task_index = ix, task_type = ty\<rparr>\<rparr>"

text \<open>
  A heterogeneous cluster of three hosts: \<open>algo-1\<close> and \<open>algo-2\<close> form the instance
  group \<open>train\<close>, the only distribution group, and \<open>algo-3\<close> is the instance group
  \<open>etl\<close>. \<open>both_flags\<close> sets the parameter-server and the multi-worker-mirrored
  flag.
\<close>

definition heterogeneous_env :: "string \<Rightarrow> string \<Rightarrow> (string \<times> py_value) list \<Rightarrow> env" where
  "heterogeneous_env cur grp params =
     \<lparr>hosts = [''algo-1'', ''algo-2'', ''algo-3''], current_host = cur,
      distribution_hosts = [''algo-1'', ''algo-2''],
      current_instance_group = grp, distribution_instance_groups = [''train''],
      additional_framework_parameters = params,
      to_env_vars = [(''SM_CURRENT_HOST'', EnvStr cur)],
      module_dir = ''s3://bucket/sourcedir.tar.gz'', user_entry_point = ''train.py''\<rparr>"

definition both_flags :: "(string \<times> py_value) list" where
  "both_flags = [(''sagemaker_parameter_server_enabled'', PyBool True),
                 (''sagemaker_multi_worker_mirrored_strategy_enabled'', PyBool True)]"


section \<open>Helper facts\<close>

lemma str_nat_2222: "str_nat 2222 = ''2222''"
  by (simp add: str_nat.simps digit_char_def)

lemma str_nat_8890: "str_nat 8890 = ''8890''"
  by (simp add: str_nat.simps digit_char_def)

lemma list_index_nth:
  "distinct xs \<Longrightarrow> i < length xs \<Longrightarrow> list_index xs (xs ! i) = Inr i"
proof (induction xs arbitrary: i)
  case Nil
  then show ?case by simp
next
  case (Cons y ys)
  show ?case
  proof (cases i)
    case 0
    then show ?thesis by simp
  next
    case (Suc j)
    with Cons.prems have "j < length ys" and "distinct ys" and "ys ! j \<noteq> y"
      by auto
    with Cons.IH [of j] Suc show ?thesis by simp
  qed
qed

lemma list_index_first:
  "x \<in> set xs \<Longrightarrow>
   \<exists>i. list_index xs x = Inr i \<and> i < length xs \<and> xs ! i = x \<and> (\<forall>j<i. xs ! j \<noteq> x)"
proof (induction xs)
  case Nil
  then show ?case by simp
next
  case (Cons y ys)
  show ?case
  proof (cases "y = x")
    case True
    then show ?thesis by simp
  next
    case False
    with Cons.prems have "x \<in> set ys" by simp
    from Cons.IH [OF this] obtain i where
      i: "list_index ys x = Inr i" "i < length ys" "ys ! i = x" "\<forall>j<i. ys ! j \<noteq> x"
      by blast
    have "\<forall>j<Suc i. (y # ys) ! j \<noteq> x"
      using False i(4) by (auto simp: nth_Cons split: nat.splits)
    with False i show ?thesis by simp
  qed
qed

lemma host_addresses_2222: "host_addresses xs (PortInt 2222) = map (\<lambda>h. h @ '':2222'') xs"
  by (simp add: host_addresses_def str_nat_2222)

lemma host_addresses_8890: "host_addresses xs (PortInt 8890) = map (\<lambda>h. h @ '':8890'') xs"
  by (simp add: host_addresses_def str_nat_8890)

lemma host_addresses_2223: "host_addresses xs (PortStr ''2223'') = map (\<lambda>h. h @ '':2223'') xs"
  by (simp add: host_addresses_def)

lemmas host_addresses_simps = host_addresses_2222 host_addresses_8890 host_addresses_2223

lemma build_tf_config_for_ps_multi:
  assumes "2 \<le> length hs"
  shows "build_tf_config_for_ps hs c ps_task =
     (let finish = (\<lambda>ty ix. Inr \<lparr>cluster = [(''master'', [hs ! 0 @ '':2222'']),
                                            (''ps'', map (\<lambda>h. h @ '':2223'') hs),
                                            (''worker'', map (\<lambda>h. h @ '':2222'') (drop 1 hs))],
                                 environment = ''cloud'',
                                 task = \<lparr>task_index = ix, task_type = ty\<rparr>\<rparr>)
      in if ps_task then (case list_index hs c of Inl e \<Rightarrow> Inl e | Inr i \<Rightarrow> finish ''ps'' i)
         else if c = hs ! 0 then finish ''master'' 0
         else (case list_index (drop 1 hs) c of Inl e \<Rightarrow> Inl e | Inr i \<Rightarrow> finish ''worker'' i))"
proof -
  from assms obtain a b rest where hs: "hs = a # b # rest"
    by (cases hs; cases "tl hs") auto
  show ?thesis
    unfolding hs build_tf_config_for_ps_def is_host_master_def
    by (simp add: host_addresses_simps Let_def split: sum.splits)
qed

lemma wait_loop_returns:
  "\<lbrakk>\<forall>i. k \<le> i \<and> i < n \<longrightarrow> probe i; \<not> probe n; k \<le> n\<rbrakk> \<Longrightarrow>
   wait_loop probe master k acc =
     Some (acc @ concat (replicate (n - k) [Curl (master @ '':2222''), Sleep 10])
               @ [Curl (master @ '':2222'')])"
proof (induction "n - k" arbitrary: k acc)
  case 0
  then have "k = n" by simp
  with 0 show ?case by (subst wait_loop.simps) simp
next
  case (Suc d)
  then have k: "k < n" "probe k" by auto
  from Suc have "d = n - Suc k" by simp
  from Suc.hyps(1) [OF this, of "acc @ [Curl (master @ '':2222''), Sleep 10]"] Suc.prems k
  have "wait_loop probe master (Suc k) (acc @ [Curl (master @ '':2222''), Sleep 10]) =
     Some ((acc @ [Curl (master @ '':2222''), Sleep 10])
             @ concat (replicate (n - Suc k) [Curl (master @ '':2222''), Sleep 10])
             @ [Curl (master @ '':2222'')])"
    by simp
  moreover from k have "n - k = Suc (n - Suc k)" by simp
  ultimately show ?case using k by (subst wait_loop.simps) simp
qed

lemma wait_loop_Some_stops:
  "wait_loop probe master k acc = Some r \<Longrightarrow> \<exists>i\<ge>k. \<not> probe i"
proof (induction rule: wait_loop.raw_induct [rotated 1, consumes 1])
  case (1 wl probe master k acc r)
  show ?case
  proof (cases "probe k")
    case True
    with 1(2) have "wl probe master (Suc k) (acc @ [Curl (master @ '':2222''), Sleep 10]) = Some r"
      by simp
    from 1(1) [OF this] obtain i where "Suc k \<le> i" "\<not> probe i" by blast
    then show ?thesis by (intro exI [of _ i]) simp
  next
    case False
    then show ?thesis by blast
  qed
qed

lemma wait_loop_forever: "\<forall>i. probe i \<Longrightarrow> wait_loop probe master k acc = None"
  using wait_loop_Some_stops [of probe master k acc] by (cases "wait_loop probe master k acc") auto

lemma train_setup_ps:
  "parameter_server_enabled e \<Longrightarrow>
   train_setup e =
     (if current_instance_group e \<in> set (distribution_instance_groups e) then
        (case build_tf_config_for_ps (distribution_hosts e) (current_host e) False of
           Inl err \<Rightarrow> Inl err
         | Inr cfg \<Rightarrow> Inr (Some cfg, to_env_vars e))
      else Inr (None, to_env_vars e))"
  by (simp add: train_setup_def)

lemma is_host_master_multi:
  "1 < length hs \<Longrightarrow> is_host_master hs c = Inr (c = hs ! 0) \<and> list_first hs = Inr (hs ! 0)"
  by (cases hs) (simp_all add: is_host_master_def)

lemma train_ps_events:
  assumes "parameter_server_enabled e"
  shows "fst (train w e args) =
     (case train_setup e of
        Inr (Some cfg, ev) \<Rightarrow>
          (case list_index (hosts e) (current_host e) of
             Inr ix \<Rightarrow>
               (if cluster_spec_raises w = None \<and> ps_server_raises w = None then
                  [PsServerStart (cluster cfg) ix,
                   EntryPointRun (module_dir e) (user_entry_point e) args
                     (AList.update ''TF_CONFIG'' (JsonDumps cfg) (to_env_vars e)) True None]
                  @ (if entry_point_raises w = None \<and> current_host e \<noteq> hosts e ! 0
                     then [WaitUntilMasterIsDown (hosts e ! 0)] else [])
                else [])
           | Inl err \<Rightarrow> [])
      | _ \<Rightarrow> [])"
proof -
  from assms have "1 < length (hosts e)" by (simp add: parameter_server_enabled_def)
  note m = is_host_master_multi [OF this]
  show ?thesis
    using assms
    by (simp add: train_def train_run_def run_ps_def run_worker_def m
             split: sum.splits option.splits prod.splits)
qed

lemma example_env_simps:
  "hosts (example_env cur grp params) = [''algo-1'', ''algo-2'']"
  "current_host (example_env cur grp params) = cur"
  "distribution_hosts (example_env cur grp params) = [''algo-1'', ''algo-2'']"
  "current_instance_group (example_env cur grp params) = grp"
  "distribution_instance_groups (example_env cur grp params) = [''train'']"
  "additional_framework_parameters (example_env cur grp params) = params"
  "to_env_vars (example_env cur grp params) = [(''SM_CURRENT_HOST'', EnvStr cur)]"
  "module_dir (example_env cur grp params) = ''s3://bucket/sourcedir.tar.gz''"
  "user_entry_point (example_env cur grp params) = ''train.py''"
  by (simp_all add: example_env_def)

lemma example_world_simps:
  "cluster_spec_raises (example_world probe) = None"
  "ps_server_raises (example_world probe) = None"
  "entry_point_raises (example_world probe) = None"
  "curl (example_world probe) = probe"
  by (simp_all add: example_world_def)

lemma example_build_ps:
  "build_tf_config_for_ps [''algo-1'', ''algo-2''] ''algo-1'' False
     = Inr (example_ps_config ''master'' 0)"
  "build_tf_config_for_ps [''algo-1'', ''algo-2''] ''algo-2'' False
     = Inr (example_ps_config ''worker'' 0)"
  by (simp_all add: build_tf_config_for_ps_multi example_ps_config_def)

lemma example_ps_enabled:
  "parameter_server_enabled
     (example_env cur grp ((''sagemaker_parameter_server_enabled'', PyBool True) # ps))"
  by (simp add: parameter_server_enabled_def example_env_simps dict_get_def
        SAGEMAKER_PARAMETER_SERVER_ENABLED_def)

lemma train_non_ps:
  assumes "\<not> parameter_server_enabled e"
    and "train_setup e = Inr (tfc, ev)"
  shows "train w e args =
             ([EntryPointRun (module_dir e) (user_entry_point e) args ev True
                 (Some (select_runner_type e))],
              Some (case entry_point_raises w of Some err \<Rightarrow> Inl err | None \<Rightarrow> Inr ()))"
  unfolding train_def train_run_def using assms by simp

lemma example_setup_plain:
  assumes "map_of params ''sagemaker_parameter_server_enabled'' = None"
    and "map_of params ''sagemaker_multi_worker_mirrored_strategy_enabled'' = None"
  shows "\<not> parameter_server_enabled (example_env cur grp params)
   \<and> train_setup (example_env cur grp params) = Inr (None, [(''SM_CURRENT_HOST'', EnvStr cur)])"
proof -
  from assms(1) have ps: "\<not> parameter_server_enabled (example_env cur grp params)"
    by (simp add: parameter_server_enabled_def dict_get_def example_env_simps
          SAGEMAKER_PARAMETER_SERVER_ENABLED_def)
  from assms(2) have mw: "\<not> multi_worker_mirrored_strategy_enabled (example_env cur grp params)"
    by (simp add: multi_worker_mirrored_strategy_enabled_def dict_get_def example_env_simps
          SAGEMAKER_MULTI_WORKER_MIRRORED_STRATEGY_ENABLED_def)
  from ps mw show ?thesis
    by (auto simp: train_setup_def Let_def example_env_simps)
qed

lemma heterogeneous_env_simps:
  "hosts (heterogeneous_env cur grp params) = [''algo-1'', ''algo-2'', ''algo-3'']"
  "current_host (heterogeneous_env cur grp params) = cur"
  "distribution_hosts (heterogeneous_env cur grp params) = [''algo-1'', ''algo-2'']"
  "current_instance_group (heterogeneous_env cur grp params) = grp"
  "distribution_instance_groups (heterogeneous_env cur grp params) = [''train'']"
  "additional_framework_parameters (heterogeneous_env cur grp params) = params"
  "to_env_vars (heterogeneous_env cur grp params) = [(''SM_CURRENT_HOST'', EnvStr cur)]"
  "module_dir (heterogeneous_env cur grp params) = ''s3://bucket/sourcedir.tar.gz''"
  "user_entry_point (heterogeneous_env cur grp params) = ''train.py''"
  by (simp_all add: heterogeneous_env_def)

lemma heterogeneous_flags:
  "parameter_server_enabled (heterogeneous_env cur grp both_flags)"
  "multi_worker_mirrored_strategy_enabled (heterogeneous_env cur grp both_flags)"
  by (simp_all add: parameter_server_enabled_def multi_worker_mirrored_strategy_enabled_def
        heterogeneous_env_simps both_flags_def dict_get_def
        SAGEMAKER_PARAMETER_SERVER_ENABLED_def SAGEMAKER_MULTI_WORKER_MIRRORED_STRATEGY_ENABLED_def)











section \<open>Claims about the topology builder\<close>

text \<open>
  Claim C1. For a list \<open>hs\<close> of at least two distinct hosts, the parameter-server builder
  returns, for every member of the list as current host, the cluster with
  \<open>master = [hs[0]:2222]\<close>, \<open>ps\<close> = all hosts with \<open>:2223\<close> and \<open>worker\<close> = the hosts after
  the first with \<open>:2222\<close>, each in list order. With \<open>ps_task = True\<close> the task of the host at
  position \<open>i\<close> is \<open>ps\<close> with index \<open>i\<close>; with \<open>ps_task = False\<close> the first host is
  \<open>master\<close> with index 0 and the host at position \<open>j\<close> of \<open>hs[1:]\<close> is \<open>worker\<close> with
  index \<open>j\<close>.
\<close>

theorem C1_ps_topology:
  assumes "2 \<le> length hs" and "distinct hs"
  shows "let expected = (\<lambda>ty ix.
             Inr \<lparr>cluster = [(''master'', [hs ! 0 @ '':2222'']),
                             (''ps'', map (\<lambda>h. h @ '':2223'') hs),
                             (''worker'', map (\<lambda>h. h @ '':2222'') (drop 1 hs))],
                  environment = ''cloud'',
                  task = \<lparr>task_index = ix, task_type = ty\<rparr>\<rparr>)
         in (i < length hs \<longrightarrow> build_tf_config_for_ps hs (hs ! i) True = expected ''ps'' i)
          \<and> build_tf_config_for_ps hs (hs ! 0) False = expected ''master'' 0
          \<and> (j < length (drop 1 hs) \<longrightarrow>
               build_tf_config_for_ps hs (drop 1 hs ! j) False = expected ''worker'' j)"
proof -
  have ps: "list_index hs (hs ! i) = Inr i" if "i < length hs"
    using assms(2) that by (rule list_index_nth)
  have wk: "list_index (drop 1 hs) (drop 1 hs ! j) = Inr j \<and> drop 1 hs ! j \<noteq> hs ! 0"
    if j: "j < length (drop 1 hs)"
  proof -
    from assms(2) have d: "distinct (drop 1 hs)" by simp
    from j have "drop 1 hs ! j = hs ! Suc j" by simp
    moreover from j assms have "hs ! Suc j \<noteq> hs ! 0"
      by (cases hs) auto
    ultimately show ?thesis using list_index_nth [OF d j] by simp
  qed
  show ?thesis
    using ps wk by (simp add: build_tf_config_for_ps_multi [OF assms(1)] Let_def)
qed

text \<open>
  The scenario of the specification: hosts \<open>a, b, c\<close>; host \<open>b\<close> is parameter server 1 and
  worker 0, host \<open>a\<close> is the master.
\<close>

theorem C1_ps_topology_witness:
  "build_tf_config_for_ps [''a'', ''b'', ''c''] ''b'' True =
     Inr \<lparr>cluster = [(''master'', [''a:2222'']),
                      (''ps'', [''a:2223'', ''b:2223'', ''c:2223'']),
                      (''worker'', [''b:2222'', ''c:2222''])],
          environment = ''cloud'', task = \<lparr>task_index = 1, task_type = ''ps''\<rparr>\<rparr>
   \<and> build_tf_config_for_ps [''a'', ''b'', ''c''] ''a'' False =
     Inr \<lparr>cluster = [(''master'', [''a:2222'']),
                      (''ps'', [''a:2223'', ''b:2223'', ''c:2223'']),
                      (''worker'', [''b:2222'', ''c:2222''])],
          environment = ''cloud'', task = \<lparr>task_index = 0, task_type = ''master''\<rparr>\<rparr>
   \<and> build_tf_config_for_ps [''a'', ''b'', ''c''] ''b'' False =
     Inr \<lparr>cluster = [(''master'', [''a:2222'']),
                      (''ps'', [''a:2223'', ''b:2223'', ''c:2223'']),
                      (''worker'', [''b:2222'', ''c:2222''])],
          environment = ''cloud'', task = \<lparr>task_index = 0, task_type = ''worker''\<rparr>\<rparr>"
  using C1_ps_topology [of "[''a'', ''b'', ''c'']" 1 0]
  by (simp add: Let_def)

text \<open>
  Claim C2. On a single-element host list a \<open>ps\<close> task is refused with \<^verbatim>\<open>ValueError\<close>: the
  call yields the error and no topology, whatever the current host. Without \<open>ps_task\<close>
  the call for that host succeeds and the task is \<open>master\<close> with index 0.
\<close>

theorem C2_single_host:
  "build_tf_config_for_ps [h] c True = Inl ValueError
   \<and> (\<exists>cfg. build_tf_config_for_ps [h] h False = Inr cfg
            \<and> task cfg = \<lparr>task_index = 0, task_type = ''master''\<rparr>)"
  by (simp add: build_tf_config_for_ps_def is_host_master_def)

text \<open>The same on the one-host cluster \<open>algo-1\<close>.\<close>

theorem C2_single_host_witness:
  "build_tf_config_for_ps [''algo-1''] ''algo-1'' True = Inl ValueError
   \<and> (\<exists>cfg. build_tf_config_for_ps [''algo-1''] ''algo-1'' False = Inr cfg
            \<and> task cfg = \<lparr>task_index = 0, task_type = ''master''\<rparr>)"
  using C2_single_host [of "''algo-1''" "''algo-1''"] by simp

text \<open>
  Claim C3. For a current host that occurs in the host list, the multi-worker-mirrored
  builder returns a cluster whose only role is \<open>worker\<close>, holding every host in list order
  with \<open>:8890\<close>, and the task \<open>worker\<close> whose index is the (first) position of the current
  host in the full list.
\<close>

theorem C3_mwms_topology:
  assumes "c \<in> set hs"
  shows "\<exists>i. i < length hs \<and> hs ! i = c \<and> (\<forall>j<i. hs ! j \<noteq> c)
           \<and> build_tf_config_for_mwms hs c =
               Inr \<lparr>cluster = [(''worker'', map (\<lambda>h. h @ '':8890'') hs)],
                    environment = ''cloud'',
                    task = \<lparr>task_index = i, task_type = ''worker''\<rparr>\<rparr>"
proof -
  from list_index_first [OF assms] obtain i where
    i: "list_index hs c = Inr i" "i < length hs" "hs ! i = c" "\<forall>j<i. hs ! j \<noteq> c"
    by blast
  from i(1) have "build_tf_config_for_mwms hs c =
               Inr \<lparr>cluster = [(''worker'', map (\<lambda>h. h @ '':8890'') hs)],
                    environment = ''cloud'',
                    task = \<lparr>task_index = i, task_type = ''worker''\<rparr>\<rparr>"
    by (simp add: build_tf_config_for_mwms_def host_addresses_simps)
  with i(2-4) show ?thesis by blast
qed

text \<open>The scenario of the specification: hosts \<open>a, b\<close>, current host \<open>b\<close>, index 1.\<close>

theorem C3_mwms_topology_witness:
  "''b'' \<in> set [''a'', ''b''] \<and>
   build_tf_config_for_mwms [''a'', ''b''] ''b'' =
     Inr \<lparr>cluster = [(''worker'', [''a:8890'', ''b:8890''])], environment = ''cloud'',
          task = \<lparr>task_index = 1, task_type = ''worker''\<rparr>\<rparr>"
proof -
  have m: "''b'' \<in> set [''a'', ''b'']" by simp
  from C3_mwms_topology [OF m] obtain i where
    i: "i < length [''a'', ''b'']" "[''a'', ''b''] ! i = ''b''"
       "build_tf_config_for_mwms [''a'', ''b''] ''b'' =
          Inr \<lparr>cluster = [(''worker'', map (\<lambda>h. h @ '':8890'') [''a'', ''b''])],
               environment = ''cloud'', task = \<lparr>task_index = i, task_type = ''worker''\<rparr>\<rparr>"
    by blast
  from i(1,2) have "i = 1" by (cases i) auto
  with i(3) m show ?thesis by simp
qed

text \<open>
  Claim C10. For a single host and \<open>ps_task = False\<close> the returned cluster has the one
  key \<open>master\<close>: neither \<open>worker\<close> nor \<open>ps\<close> is a key of the dictionary.
\<close>

theorem C10_single_host_cluster:
  "\<exists>cfg. build_tf_config_for_ps [h] h False = Inr cfg
        \<and> cluster cfg = [(''master'', [h @ '':2222''])]
        \<and> map_of (cluster cfg) ''worker'' = None
        \<and> map_of (cluster cfg) ''ps'' = None"
  by (simp add: build_tf_config_for_ps_def is_host_master_def host_addresses_simps)

text \<open>The same on the one-host cluster \<open>algo-1\<close>.\<close>

theorem C10_single_host_cluster_witness:
  "\<exists>cfg. build_tf_config_for_ps [''algo-1''] ''algo-1'' False = Inr cfg
        \<and> cluster cfg = [(''master'', [''algo-1:2222''])]
        \<and> map_of (cluster cfg) ''worker'' = None
        \<and> map_of (cluster cfg) ''ps'' = None"
  using C10_single_host_cluster [of "''algo-1''"] by simp

section \<open>Claims about the shutdown coordinator\<close>

text \<open>
  Claim C6. With the probes given as a sequence of results, the wait for the master
  returns exactly at the first failed probe: if the probes 0 .. n-1 succeed and probe \<open>n\<close>
  fails, it does \<open>n\<close> rounds of probe and 10-second sleep and returns at probe \<open>n\<close>
  without sleeping; if every probe succeeds it never returns; and whenever it returns, it
  has done so at the first failed probe.
\<close>

theorem C6_wait_until_master_is_down:
  "((\<forall>i<n. curl w i) \<and> \<not> curl w n \<longrightarrow>
      wait_until_master_is_down w master =
        Some (concat (replicate n [Curl (master @ '':2222''), Sleep 10])
                @ [Curl (master @ '':2222'')]))
   \<and> ((\<forall>i. curl w i) \<longrightarrow> wait_until_master_is_down w master = None)
   \<and> (wait_until_master_is_down w master = Some r \<longrightarrow>
        (\<exists>m. (\<forall>i<m. curl w i) \<and> \<not> curl w m
           \<and> r = concat (replicate m [Curl (master @ '':2222''), Sleep 10])
                   @ [Curl (master @ '':2222'')]))"
proof (intro conjI impI)
  assume "(\<forall>i<n. curl w i) \<and> \<not> curl w n"
  then show "wait_until_master_is_down w master =
        Some (concat (replicate n [Curl (master @ '':2222''), Sleep 10])
                @ [Curl (master @ '':2222'')])"
    unfolding wait_until_master_is_down_def
    using wait_loop_returns [of 0 n "curl w" master "[]"] by simp
next
  assume "\<forall>i. curl w i"
  then show "wait_until_master_is_down w master = None"
    unfolding wait_until_master_is_down_def by (rule wait_loop_forever)
next
  assume r: "wait_until_master_is_down w master = Some r"
  then have "\<exists>i. \<not> curl w i"
    unfolding wait_until_master_is_down_def by (auto dest: wait_loop_Some_stops)
  then obtain i where i: "\<not> curl w i" ..
  define m where "m = (LEAST i. \<not> curl w i)"
  from i have stop: "\<not> curl w m" unfolding m_def by (rule LeastI)
  have up: "\<forall>i<m. curl w i"
    unfolding m_def using not_less_Least by blast
  from up stop have "wait_until_master_is_down w master =
        Some (concat (replicate m [Curl (master @ '':2222''), Sleep 10])
                @ [Curl (master @ '':2222'')])"
    unfolding wait_until_master_is_down_def
    using wait_loop_returns [of 0 m "curl w" master "[]"] by simp
  with r up stop show "\<exists>m. (\<forall>i<m. curl w i) \<and> \<not> curl w m
           \<and> r = concat (replicate m [Curl (master @ '':2222''), Sleep 10])
                   @ [Curl (master @ '':2222'')]"
    by auto
qed

text \<open>
  Three successful probes are followed by three sleeps and a fourth, failing probe; a master
  that always answers makes the loop run forever.
\<close>

theorem C6_wait_until_master_is_down_witness:
  "wait_until_master_is_down
     (example_world (\<lambda>k. k < 3)) ''algo-1'' =
     Some [Curl ''algo-1:2222'', Sleep 10, Curl ''algo-1:2222'', Sleep 10,
           Curl ''algo-1:2222'', Sleep 10, Curl ''algo-1:2222'']
   \<and> wait_until_master_is_down
     (example_world (\<lambda>k. True)) ''algo-1'' = None"
  using C6_wait_until_master_is_down
          [of 3 "example_world (\<lambda>k. k < 3)" "''algo-1''"]
        C6_wait_until_master_is_down
          [of 0 "example_world (\<lambda>k. True)" "''algo-1''"]
  by (simp add: numeral_3_eq_3 example_world_simps)

section \<open>Claims about the orchestrator\<close>

text \<open>
  Claim C9. When the parameter-server flag is set and there is more than one host, but the
  current instance group is not one of the distribution instance groups, the setup binds
  no \<open>tf_config\<close>, the run phase still takes the parameter-server branch, and \<open>train\<close>
  raises \<^verbatim>\<open>UnboundLocalError\<close> before any process is launched.
\<close>

theorem C9_unbound_tf_config:
  assumes "truthy (dict_get (additional_framework_parameters e)
                     ''sagemaker_parameter_server_enabled'' (PyBool False))"
    and "1 < length (hosts e)"
    and "current_instance_group e \<notin> set (distribution_instance_groups e)"
  shows "train_setup e = Inr (None, to_env_vars e)
       \<and> train w e args = ([], Some (Inl UnboundLocalError))"
proof -
  from assms(1,2) have ps: "parameter_server_enabled e"
    by (simp add: parameter_server_enabled_def SAGEMAKER_PARAMETER_SERVER_ENABLED_def)
  with assms(3) have s: "train_setup e = Inr (None, to_env_vars e)"
    by (simp add: train_setup_ps)
  with ps show ?thesis by (simp add: train_def train_run_def)
qed

text \<open>
  Host \<open>algo-2\<close> of the instance group \<open>etl\<close>, which is not a distribution group.
\<close>

theorem C9_unbound_tf_config_witness:
  "train_setup (example_env ''algo-2'' ''etl'' [(''sagemaker_parameter_server_enabled'', PyBool True)])
     = Inr (None, [(''SM_CURRENT_HOST'', EnvStr ''algo-2'')])
   \<and> train (example_world (\<lambda>k. False))
        (example_env ''algo-2'' ''etl'' [(''sagemaker_parameter_server_enabled'', PyBool True)])
        [''--epochs'', ''1'']
     = ([], Some (Inl UnboundLocalError))"
  using C9_unbound_tf_config
          [of "example_env ''algo-2'' ''etl'' [(''sagemaker_parameter_server_enabled'', PyBool True)]"
              "example_world (\<lambda>k. False)" "[''--epochs'', ''1'']"]
  by (simp add: example_env_simps dict_get_def)

text \<open>
  Claim C5. In the parameter-server branch the events of \<open>train\<close> are an initial part of
  the sequence: parameter-server start, blocking worker run, wait for the master
  \<open>hosts[0]\<close>. The wait is entered only when the worker run has returned and the current
  host is not the first host, so never on the master. When the topology was built, the
  current host is in the host list and no collaborator raises, all of the sequence happens
  (without the wait on the master).
\<close>

theorem C5_ps_branch_order:
  assumes "parameter_server_enabled e"
  shows "(\<exists>cl ix ev.
            prefix (fst (train w e args))
              [PsServerStart cl ix,
               EntryPointRun (module_dir e) (user_entry_point e) args ev True None,
               WaitUntilMasterIsDown (hosts e ! 0)])
       \<and> (\<forall>m. WaitUntilMasterIsDown m \<in> set (fst (train w e args)) \<longrightarrow>
              m = hosts e ! 0 \<and> current_host e \<noteq> hosts e ! 0 \<and> entry_point_raises w = None)
       \<and> (current_host e = hosts e ! 0 \<longrightarrow>
              (\<forall>m. WaitUntilMasterIsDown m \<notin> set (fst (train w e args))))
       \<and> (\<forall>cfg ev. train_setup e = Inr (Some cfg, ev) \<and> current_host e \<in> set (hosts e)
              \<and> cluster_spec_raises w = None \<and> ps_server_raises w = None
              \<and> entry_point_raises w = None \<longrightarrow>
              (\<exists>ix<length (hosts e). hosts e ! ix = current_host e \<and>
                fst (train w e args) =
                  [PsServerStart (cluster cfg) ix,
                   EntryPointRun (module_dir e) (user_entry_point e) args
                     (AList.update ''TF_CONFIG'' (JsonDumps cfg) (to_env_vars e)) True None]
                  @ (if current_host e = hosts e ! 0 then []
                     else [WaitUntilMasterIsDown (hosts e ! 0)])))"
proof -
  note ev = train_ps_events [OF assms]
  have order: "\<exists>cl ix ev.
            prefix (fst (train w e args))
              [PsServerStart cl ix,
               EntryPointRun (module_dir e) (user_entry_point e) args ev True None,
               WaitUntilMasterIsDown (hosts e ! 0)]"
    by (auto simp: ev prefix_def split: sum.splits option.splits prod.splits)
  have wait: "m = hosts e ! 0 \<and> current_host e \<noteq> hosts e ! 0 \<and> entry_point_raises w = None"
    if "WaitUntilMasterIsDown m \<in> set (fst (train w e args))" for m
    using that by (auto simp: ev split: sum.splits option.splits prod.splits if_splits)
  have full: "\<exists>ix<length (hosts e). hosts e ! ix = current_host e \<and>
                fst (train w e args) =
                  [PsServerStart (cluster cfg) ix,
                   EntryPointRun (module_dir e) (user_entry_point e) args
                     (AList.update ''TF_CONFIG'' (JsonDumps cfg) (to_env_vars e)) True None]
                  @ (if current_host e = hosts e ! 0 then []
                     else [WaitUntilMasterIsDown (hosts e ! 0)])"
    if a: "train_setup e = Inr (Some cfg, ev) \<and> current_host e \<in> set (hosts e)
              \<and> cluster_spec_raises w = None \<and> ps_server_raises w = None
              \<and> entry_point_raises w = None" for cfg ev
  proof -
    from a have "current_host e \<in> set (hosts e)" by simp
    from list_index_first [OF this] obtain ix where
      ix: "list_index (hosts e) (current_host e) = Inr ix" "ix < length (hosts e)"
          "hosts e ! ix = current_host e"
      by blast
    with a show ?thesis
      by (intro exI [of _ ix]) (simp add: train_ps_events [OF assms])
  qed
  from order wait full show ?thesis by blast
qed

text \<open>
  A worker host of the example cluster: the parameter server is started with index 1, the
  worker is run with the built topology in \<open>TF_CONFIG\<close>, and the wait for \<open>algo-1\<close>
  comes last.
\<close>

theorem C5_ps_branch_order_witness:
  "fst (train (example_world (\<lambda>k. False))
          (example_env ''algo-2'' ''train'' [(''sagemaker_parameter_server_enabled'', PyBool True)])
          [''--epochs'', ''1''])
     = [PsServerStart (cluster (example_ps_config ''worker'' 0)) 1,
        EntryPointRun ''s3://bucket/sourcedir.tar.gz'' ''train.py'' [''--epochs'', ''1'']
          [(''SM_CURRENT_HOST'', EnvStr ''algo-2''),
           (''TF_CONFIG'', JsonDumps (example_ps_config ''worker'' 0))] True None,
        WaitUntilMasterIsDown ''algo-1'']"
proof -
  define e where "e = example_env ''algo-2'' ''train'' [(''sagemaker_parameter_server_enabled'', PyBool True)]"
  define w where "w = example_world (\<lambda>k. False)"
  have ps: "parameter_server_enabled e" unfolding e_def by (rule example_ps_enabled)
  have f: "hosts e = [''algo-1'', ''algo-2'']" "current_host e = ''algo-2''"
      "to_env_vars e = [(''SM_CURRENT_HOST'', EnvStr ''algo-2'')]"
      "module_dir e = ''s3://bucket/sourcedir.tar.gz''" "user_entry_point e = ''train.py''"
    unfolding e_def by (simp_all add: example_env_simps)
  have su: "train_setup e = Inr (Some (example_ps_config ''worker'' 0), to_env_vars e)"
    unfolding train_setup_ps [OF ps] unfolding e_def
    by (simp add: example_env_simps example_build_ps)
  have hyp: "train_setup e = Inr (Some (example_ps_config ''worker'' 0), to_env_vars e)
              \<and> current_host e \<in> set (hosts e)
              \<and> cluster_spec_raises w = None \<and> ps_server_raises w = None
              \<and> entry_point_raises w = None"
    using su by (simp add: f w_def example_world_simps)
  from C5_ps_branch_order [OF ps, of w "[''--epochs'', ''1'']"]
  have "\<forall>cfg ev. train_setup e = Inr (Some cfg, ev) \<and> current_host e \<in> set (hosts e)
              \<and> cluster_spec_raises w = None \<and> ps_server_raises w = None
              \<and> entry_point_raises w = None \<longrightarrow>
              (\<exists>ix<length (hosts e). hosts e ! ix = current_host e \<and>
                fst (train w e [''--epochs'', ''1'']) =
                  [PsServerStart (cluster cfg) ix,
                   EntryPointRun (module_dir e) (user_entry_point e) [''--epochs'', ''1'']
                     (AList.update ''TF_CONFIG'' (JsonDumps cfg) (to_env_vars e)) True None]
                  @ (if current_host e = hosts e ! 0 then []
                     else [WaitUntilMasterIsDown (hosts e ! 0)]))"
    by (elim conjE)
  from this [rule_format, OF hyp]
  obtain ix where ix: "ix < length (hosts e)" "hosts e ! ix = current_host e"
    and tr: "fst (train w e [''--epochs'', ''1'']) =
                  [PsServerStart (cluster (example_ps_config ''worker'' 0)) ix,
                   EntryPointRun (module_dir e) (user_entry_point e) [''--epochs'', ''1'']
                     (AList.update ''TF_CONFIG'' (JsonDumps (example_ps_config ''worker'' 0))
                        (to_env_vars e)) True None]
                  @ (if current_host e = hosts e ! 0 then []
                     else [WaitUntilMasterIsDown (hosts e ! 0)])"
    by blast
  from ix have "ix = 1" unfolding f by (cases ix) auto
  with tr show ?thesis unfolding f e_def [symmetric] w_def [symmetric] by simp
qed

text \<open>
  Claim C7. When the parameter-server strategy is not active and the setup has returned,
  \<open>train\<close> calls the entry-point runner exactly once, synchronously, with the
  environment variables left by the setup and this runner: MPI when the current instance
  group takes part in the distribution and \<open>sagemaker_mpi_enabled\<close> is set; data-parallel
  when it takes part, the data-parallel flag is set and the MPI flag is not; the default
  process runner otherwise. The outcome of \<open>train\<close> is the outcome of that call.
\<close>

theorem C7_runner_selection:
  assumes "\<not> parameter_server_enabled e"
    and "train_setup e = Inr (tfc, ev)"
  shows "\<exists>rt. train w e args =
             ([EntryPointRun (module_dir e) (user_entry_point e) args ev True (Some rt)],
              Some (case entry_point_raises w of Some err \<Rightarrow> Inl err | None \<Rightarrow> Inr ()))
          \<and> rt = (let participates = current_instance_group e \<in> set (distribution_instance_groups e);
                      mpi = truthy (dict_get (additional_framework_parameters e)
                                      ''sagemaker_mpi_enabled'' PyNone);
                      dp = truthy (dict_get (additional_framework_parameters e)
                                      ''sagemaker_distributed_dataparallel_enabled'' (PyBool False))
                  in if participates \<and> mpi then MPIRunnerType
                     else if participates \<and> dp then SMDataParallelRunnerType
                     else ProcessRunnerType)"
proof -
  have "select_runner_type e =
          (let participates = current_instance_group e \<in> set (distribution_instance_groups e);
                      mpi = truthy (dict_get (additional_framework_parameters e)
                                      ''sagemaker_mpi_enabled'' PyNone);
                      dp = truthy (dict_get (additional_framework_parameters e)
                                      ''sagemaker_distributed_dataparallel_enabled'' (PyBool False))
                  in if participates \<and> mpi then MPIRunnerType
                     else if participates \<and> dp then SMDataParallelRunnerType
                     else ProcessRunnerType)"
    unfolding select_runner_type_def sagemaker_distributed_dataparallel_enabled_def
        SAGEMAKER_DISTRIBUTED_DATAPARALLEL_ENABLED_def Let_def
    by simp
  with train_non_ps [OF assms, of w args] show ?thesis by blast
qed

text \<open>
  The MPI flag, the data-parallel flag and no flag on a participating host, and the MPI
  flag on a host whose instance group does not take part.
\<close>

theorem C7_runner_selection_witness:
  "train (example_world (\<lambda>k. False))
     (example_env ''algo-1'' ''train'' [(''sagemaker_mpi_enabled'', PyBool True)]) [''--epochs'', ''1'']
   = ([EntryPointRun ''s3://bucket/sourcedir.tar.gz'' ''train.py'' [''--epochs'', ''1'']
         [(''SM_CURRENT_HOST'', EnvStr ''algo-1'')] True (Some MPIRunnerType)], Some (Inr ()))
   \<and> train (example_world (\<lambda>k. False))
     (example_env ''algo-1'' ''train'' [(''sagemaker_distributed_dataparallel_enabled'', PyBool True)])
     [''--epochs'', ''1'']
   = ([EntryPointRun ''s3://bucket/sourcedir.tar.gz'' ''train.py'' [''--epochs'', ''1'']
         [(''SM_CURRENT_HOST'', EnvStr ''algo-1'')] True (Some SMDataParallelRunnerType)], Some (Inr ()))
   \<and> train (example_world (\<lambda>k. False))
     (example_env ''algo-1'' ''train'' []) [''--epochs'', ''1'']
   = ([EntryPointRun ''s3://bucket/sourcedir.tar.gz'' ''train.py'' [''--epochs'', ''1'']
         [(''SM_CURRENT_HOST'', EnvStr ''algo-1'')] True (Some ProcessRunnerType)], Some (Inr ()))
   \<and> train (example_world (\<lambda>k. False))
     (example_env ''algo-1'' ''etl'' [(''sagemaker_mpi_enabled'', PyBool True)]) [''--epochs'', ''1'']
   = ([EntryPointRun ''s3://bucket/sourcedir.tar.gz'' ''train.py'' [''--epochs'', ''1'']
         [(''SM_CURRENT_HOST'', EnvStr ''algo-1'')] True (Some ProcessRunnerType)], Some (Inr ()))"
proof -
  have a: "\<not> parameter_server_enabled (example_env ''algo-1'' grp params) \<and>
      train_setup (example_env ''algo-1'' grp params) = Inr (None, [(''SM_CURRENT_HOST'', EnvStr ''algo-1'')])"
    if "params \<in> {[(''sagemaker_mpi_enabled'', PyBool True)],
                    [(''sagemaker_distributed_dataparallel_enabled'', PyBool True)], []}"
    for grp params
    using that by (intro example_setup_plain) auto
  note c7 = C7_runner_selection [where w = "example_world (\<lambda>k. False)" and args = "[''--epochs'', ''1'']"
              and tfc = None and ev = "[(''SM_CURRENT_HOST'', EnvStr ''algo-1'')]"]
  have 1: "train (example_world (\<lambda>k. False))
     (example_env ''algo-1'' ''train'' [(''sagemaker_mpi_enabled'', PyBool True)]) [''--epochs'', ''1'']
   = ([EntryPointRun ''s3://bucket/sourcedir.tar.gz'' ''train.py'' [''--epochs'', ''1'']
         [(''SM_CURRENT_HOST'', EnvStr ''algo-1'')] True (Some MPIRunnerType)], Some (Inr ()))"
    using c7 [of "example_env ''algo-1'' ''train'' [(''sagemaker_mpi_enabled'', PyBool True)]"] a
    by (simp add: example_env_simps example_world_simps dict_get_def)
  have 2: "train (example_world (\<lambda>k. False))
     (example_env ''algo-1'' ''train'' [(''sagemaker_distributed_dataparallel_enabled'', PyBool True)])
     [''--epochs'', ''1'']
   = ([EntryPointRun ''s3://bucket/sourcedir.tar.gz'' ''train.py'' [''--epochs'', ''1'']
         [(''SM_CURRENT_HOST'', EnvStr ''algo-1'')] True (Some SMDataParallelRunnerType)], Some (Inr ()))"
    using c7 [of "example_env ''algo-1'' ''train'' [(''sagemaker_distributed_dataparallel_enabled'', PyBool True)]"] a
    by (simp add: example_env_simps example_world_simps dict_get_def)
  have 3: "train (example_world (\<lambda>k. False))
     (example_env ''algo-1'' ''train'' []) [''--epochs'', ''1'']
   = ([EntryPointRun ''s3://bucket/sourcedir.tar.gz'' ''train.py'' [''--epochs'', ''1'']
         [(''SM_CURRENT_HOST'', EnvStr ''algo-1'')] True (Some ProcessRunnerType)], Some (Inr ()))"
    using c7 [of "example_env ''algo-1'' ''train'' []"] a
    by (simp add: example_env_simps example_world_simps dict_get_def)
  have 4: "train (example_world (\<lambda>k. False))
     (example_env ''algo-1'' ''etl'' [(''sagemaker_mpi_enabled'', PyBool True)]) [''--epochs'', ''1'']
   = ([EntryPointRun ''s3://bucket/sourcedir.tar.gz'' ''train.py'' [''--epochs'', ''1'']
         [(''SM_CURRENT_HOST'', EnvStr ''algo-1'')] True (Some ProcessRunnerType)], Some (Inr ()))"
    using c7 [of "example_env ''algo-1'' ''etl'' [(''sagemaker_mpi_enabled'', PyBool True)]"] a
    by (simp add: example_env_simps example_world_simps dict_get_def)
  from 1 2 3 4 show ?thesis by (intro conjI)
qed

text \<open>
  Claim C4. With both flags set and three hosts, the host \<open>algo-3\<close> of the instance group
  \<open>etl\<close>, which is not a distribution group, has the parameter-server strategy active,
  but its setup builds no topology and \<open>train\<close> raises \<^verbatim>\<open>UnboundLocalError\<close> before
  anything is launched: the run phase reads \<open>tf_config\<close> without the instance-group test
  that guards the setup and the other run branch. On the host \<open>algo-2\<close> of the
  distribution group the same flags do what the claim says: the parameter-server topology
  is built, it is the \<open>TF_CONFIG\<close> of the worker run, and no multi-worker-mirrored
  topology is injected.
\<close>

theorem C4_ps_branch_without_topology:
  "parameter_server_enabled (heterogeneous_env ''algo-3'' ''etl'' both_flags)
   \<and> multi_worker_mirrored_strategy_enabled (heterogeneous_env ''algo-3'' ''etl'' both_flags)
   \<and> train_setup (heterogeneous_env ''algo-3'' ''etl'' both_flags)
       = Inr (None, [(''SM_CURRENT_HOST'', EnvStr ''algo-3'')])
   \<and> train (example_world (\<lambda>k. False)) (heterogeneous_env ''algo-3'' ''etl'' both_flags)
        [''--epochs'', ''1'']
       = ([], Some (Inl UnboundLocalError))
   \<and> train_setup (heterogeneous_env ''algo-2'' ''train'' both_flags)
       = Inr (Some (example_ps_config ''worker'' 0), [(''SM_CURRENT_HOST'', EnvStr ''algo-2'')])
   \<and> fst (train (example_world (\<lambda>k. False)) (heterogeneous_env ''algo-2'' ''train'' both_flags)
        [''--epochs'', ''1''])
       = [PsServerStart (cluster (example_ps_config ''worker'' 0)) 1,
          EntryPointRun ''s3://bucket/sourcedir.tar.gz'' ''train.py'' [''--epochs'', ''1'']
            [(''SM_CURRENT_HOST'', EnvStr ''algo-2''),
             (''TF_CONFIG'', JsonDumps (example_ps_config ''worker'' 0))] True None,
          WaitUntilMasterIsDown ''algo-1'']"
proof -
  define bad where "bad = heterogeneous_env ''algo-3'' ''etl'' both_flags"
  define good where "good = heterogeneous_env ''algo-2'' ''train'' both_flags"
  have ps: "parameter_server_enabled bad" "parameter_server_enabled good"
    and mw: "multi_worker_mirrored_strategy_enabled bad"
    unfolding bad_def good_def by (rule heterogeneous_flags)+
  have su_bad: "train_setup bad = Inr (None, [(''SM_CURRENT_HOST'', EnvStr ''algo-3'')])"
    unfolding train_setup_ps [OF ps(1)] by (simp add: bad_def heterogeneous_env_simps)
  have tr_bad: "train (example_world (\<lambda>k. False)) bad [''--epochs'', ''1'']
                  = ([], Some (Inl UnboundLocalError))"
    using ps(1) by (simp add: train_def su_bad train_run_def)
  have su_good: "train_setup good
       = Inr (Some (example_ps_config ''worker'' 0), [(''SM_CURRENT_HOST'', EnvStr ''algo-2'')])"
    unfolding train_setup_ps [OF ps(2)]
    by (simp add: good_def heterogeneous_env_simps example_build_ps)
  have tr_good: "fst (train (example_world (\<lambda>k. False)) good [''--epochs'', ''1''])
       = [PsServerStart (cluster (example_ps_config ''worker'' 0)) 1,
          EntryPointRun ''s3://bucket/sourcedir.tar.gz'' ''train.py'' [''--epochs'', ''1'']
            [(''SM_CURRENT_HOST'', EnvStr ''algo-2''),
             (''TF_CONFIG'', JsonDumps (example_ps_config ''worker'' 0))] True None,
          WaitUntilMasterIsDown ''algo-1'']"
    unfolding train_ps_events [OF ps(2)] su_good
    by (simp add: good_def heterogeneous_env_simps example_world_simps)
  from ps(1) mw su_bad tr_bad su_good tr_good show ?thesis
    unfolding bad_def good_def by (intro conjI)
qed

section \<open>Claims about the model-directory check\<close>




end
